theory Spec2Isabelle
  imports Main
begin

section \<open>JavaScript values handed to the client\<close>

text \<open>
  The arguments of the client's methods are untyped. The model covers the primitive values
  the methods distinguish (absent, null, booleans, strings) and arrays of them; numbers
  and objects with methods of their own are outside the model. A string is a list of
  8-bit code units, read as the Latin-1 range of JavaScript's UTF-16.
\<close>

datatype jsval = JUndefined | JNull | JBool bool | JStr string | JArr "jsval list"

text \<open>The test of \<^verbatim>\<open>if (room)\<close> and of \<^verbatim>\<open>snapshot || DEFAULT_SNAPSHOT\<close>.\<close>

fun truthy :: "jsval \<Rightarrow> bool" where
  "truthy JUndefined = False"
| "truthy JNull = False"
| "truthy (JBool b) = b"
| "truthy (JStr s) = (s \<noteq> [])"
| "truthy (JArr xs) = True"

fun join :: "string \<Rightarrow> string list \<Rightarrow> string" where
  "join sep [] = []"
| "join sep [x] = x"
| "join sep (x # y # ys) = x @ sep @ join sep (y # ys)"

text \<open>
  The conversion a template literal \<^verbatim>\<open>`/_/${room}`\<close> applies: an array is joined with
  commas, its absent and null elements as empty strings.
\<close>

fun to_string :: "jsval \<Rightarrow> string" where
  "to_string JUndefined = ''undefined''"
| "to_string JNull = ''null''"
| "to_string (JBool b) = (if b then ''true'' else ''false'')"
| "to_string (JStr s) = s"
| "to_string (JArr xs) =
     join '','' (map (\<lambda>v. if v = JUndefined \<or> v = JNull then [] else to_string v) xs)"

text \<open>
  Errors as values: \<^verbatim>\<open>new Error(message)\<close>, a TypeError raised by the engine (its message
  depends on the engine), and the error the transport rejects with, which carries the
  server's response when there was one.
\<close>

record http_response =
  status :: int
  statusText :: string
  data :: jsval

datatype js_error =
    Error string
  | TypeError
  | AxiosError string "http_response option"

text \<open>The property \<^verbatim>\<open>error.response\<close>; it is undefined on a plain error.\<close>

fun response :: "js_error \<Rightarrow> http_response option" where
  "response (AxiosError code r) = r"
| "response (Error msg) = None"
| "response TypeError = None"

text \<open>\<^verbatim>\<open>String.prototype.toLowerCase\<close> on Latin-1 code units.\<close>

definition lower_char :: "char \<Rightarrow> char" where
  "lower_char c =
     (let n = (of_char c :: nat) in
      if (65 \<le> n \<and> n \<le> 90) \<or> (192 \<le> n \<and> n \<le> 222 \<and> n \<noteq> 215)
      then char_of (n + 32) else c)"

text \<open>\<^verbatim>\<open>type.toLowerCase()\<close>: only a string has the method.\<close>

fun toLowerCase :: "jsval \<Rightarrow> js_error + string" where
  "toLowerCase (JStr s) = Inr (map lower_char s)"
| "toLowerCase v = Inl TypeError"

section \<open>The form encoder\<close>

text \<open>
  \<^verbatim>\<open>qs.stringify(obj)\<close> with the options the package has by default, which is how the
  client calls it. The package is not part of the repository; this is its documented
  behaviour on the values above. A value under a key gives a list of pairs of a key
  and a string: an undefined value gives none, null gives the empty string, a boolean
  its name, a string itself, and an array the pairs of its elements under the keys
  \<^verbatim>\<open>key[0]\<close>, \<^verbatim>\<open>key[1]\<close>, ... in the order of the indices (so an empty array gives none).
  Keys and values are then percent-encoded and written \<^verbatim>\<open>key=value\<close>, joined by \<^verbatim>\<open>&\<close>.
\<close>

text \<open>An array index as the key shows it: the decimal digits of the number.\<close>

definition digit_char :: "nat \<Rightarrow> char" where
  "digit_char d = char_of (48 + d)"

fun decimal :: "nat \<Rightarrow> string" where
  "decimal n = (if n div 10 = 0 then [] else decimal (n div 10)) @ [digit_char (n mod 10)]"

declare decimal.simps [simp del]

fun qs_value :: "string \<Rightarrow> jsval \<Rightarrow> (string \<times> string) list"
  and qs_items :: "string \<Rightarrow> nat \<Rightarrow> jsval list \<Rightarrow> (string \<times> string) list" where
  "qs_value prefix JUndefined = []"
| "qs_value prefix JNull = [(prefix, [])]"
| "qs_value prefix (JBool b) = [(prefix, if b then ''true'' else ''false'')]"
| "qs_value prefix (JStr s) = [(prefix, s)]"
| "qs_value prefix (JArr xs) = qs_items prefix 0 xs"
| "qs_items prefix i [] = []"
| "qs_items prefix i (x # xs) =
     qs_value (prefix @ ''['' @ decimal i @ '']'') x @ qs_items prefix (Suc i) xs"

text \<open>
  The encoder of the package: letters, digits and \<^verbatim>\<open>- . _ ~\<close> stay, every other code unit
  becomes \<^verbatim>\<open>%XX\<close> for each byte of its UTF-8 form, in upper-case hexadecimal.
\<close>

definition hex_digit :: "nat \<Rightarrow> char" where
  "hex_digit n = ''0123456789ABCDEF'' ! (n mod 16)"

definition percent :: "nat \<Rightarrow> string" where
  "percent n = [CHR ''%'', hex_digit (n div 16), hex_digit n]"

definition encode_char :: "char \<Rightarrow> string" where
  "encode_char c =
     (let n = (of_char c :: nat) in
      if n = 45 \<or> n = 46 \<or> n = 95 \<or> n = 126 \<or> (48 \<le> n \<and> n \<le> 57) \<or>
         (65 \<le> n \<and> n \<le> 90) \<or> (97 \<le> n \<and> n \<le> 122)
      then [c]
      else if n < 128 then percent n
      else percent (192 + n div 64) @ percent (128 + n mod 64))"

definition encode :: "string \<Rightarrow> string" where
  "encode s = concat (map encode_char s)"

definition qs_stringify :: "(string \<times> jsval) list \<Rightarrow> string" where
  "qs_stringify obj =
     join ''&''
       (map (\<lambda>(k, v). encode k @ ''='' @ encode v)
          (concat (map (\<lambda>(k, v). qs_value k v) obj)))"

section \<open>Requests and the transport\<close>

datatype verb = GET | POST | PUT | DELETE

text \<open>
  A request body. \<open>Form s\<close> is a form-encoded string, the result of \<^verbatim>\<open>qs.stringify\<close>;
  \<open>Buffer v\<close> is \<^verbatim>\<open>Buffer.from(v)\<close> and \<open>ReadStream path\<close> is \<^verbatim>\<open>fs.createReadStream(path)\<close>.
\<close>

datatype body = NoBody | Form string | Buffer jsval | ReadStream string

text \<open>\<^verbatim>\<open>Buffer.from\<close> accepts a string or an array and throws a TypeError otherwise.\<close>

fun Buffer_from :: "jsval \<Rightarrow> js_error + body" where
  "Buffer_from (JStr s) = Inr (Buffer (JStr s))"
| "Buffer_from (JArr xs) = Inr (Buffer (JArr xs))"
| "Buffer_from v = Inl TypeError"

text \<open>The per-request configuration: the third argument of \<^verbatim>\<open>post\<close> and \<^verbatim>\<open>put\<close>.\<close>

record config =
  headers :: "(string \<times> string) list"
  timeout :: "nat option"

record request =
  verb :: verb
  url :: string
  payload :: body
  config :: config

definition no_config :: config where
  "no_config = \<lparr>headers = [], timeout = None\<rparr>"

definition axios_get :: "string \<Rightarrow> request" where
  "axios_get u = \<lparr>verb = GET, url = u, payload = NoBody, config = no_config\<rparr>"

definition axios_delete :: "string \<Rightarrow> request" where
  "axios_delete u = \<lparr>verb = DELETE, url = u, payload = NoBody, config = no_config\<rparr>"

definition axios_post :: "string \<Rightarrow> body \<Rightarrow> config \<Rightarrow> request" where
  "axios_post u d c = \<lparr>verb = POST, url = u, payload = d, config = c\<rparr>"

definition axios_put :: "string \<Rightarrow> body \<Rightarrow> config \<Rightarrow> request" where
  "axios_put u d c = \<lparr>verb = PUT, url = u, payload = d, config = c\<rparr>"

text \<open>
  What awaiting a request gives: the promise is fulfilled with a response (\<open>None\<close> is a
  fulfilment with no response object, the case \<^verbatim>\<open>if (response)\<close> guards against), or it
  is rejected with an error. The transport rejects an answer outside 2xx with an error
  whose \<open>response\<close> is that answer, and a request that got no answer with an error that
  has none.
\<close>

datatype settled = Fulfilled "http_response option" | Failed js_error

text \<open>
  The client: \<^verbatim>\<open>this.instance = axios.create({baseURL, timeout})\<close>. \<open>send\<close> is the
  transport together with the remote service.
\<close>

record ethercalc =
  baseURL :: string
  default_timeout :: nat
  send :: "request \<Rightarrow> settled"

text \<open>A request's own timeout overrides the one given at construction.\<close>

definition request_timeout :: "ethercalc \<Rightarrow> request \<Rightarrow> nat" where
  "request_timeout this req =
     (case timeout (config req) of Some t \<Rightarrow> t | None \<Rightarrow> default_timeout this)"

section \<open>What a call gives back\<close>

text \<open>
  A method's value is a plain value, the object \<^verbatim>\<open>{status, message}\<close>, or an error object.
  A call returns a value that is not a promise, throws, or returns a promise that is
  resolved or rejected. Every operation is paired with the requests it has issued.
\<close>

datatype retval = Plain jsval | StatusMessage int string | ErrorObject js_error

datatype completion = Returned retval | Thrown js_error | Resolved retval | Rejected js_error

type_synonym call_result = "request list \<times> completion"

section \<open>The block every method repeats\<close>

text \<open>
  \<^verbatim>\<open>catch (error) { if (error.response) { return {status: error.response.status,
  message: error.response.statusText}; } return error; }\<close>
\<close>

definition catch_handler :: "js_error \<Rightarrow> retval" where
  "catch_handler error =
     (case response error of
        Some r \<Rightarrow> StatusMessage (status r) (statusText r)
      | None \<Rightarrow> ErrorObject error)"

text \<open>The property \<^verbatim>\<open>response.data\<close>: reading it off no response is a TypeError.\<close>

definition response_data :: "http_response option \<Rightarrow> js_error + jsval" where
  "response_data resp = (case resp of Some r \<Rightarrow> Inr (data r) | None \<Rightarrow> Inl TypeError)"

text \<open>
  \<^verbatim>\<open>try { const response = await request; return response.data; } catch (error) { ... }\<close>,
  and the chain \<^verbatim>\<open>request.then(response => response.data).catch(error => ...)\<close> of the
  CommonJS file, which behaves the same: an error thrown in \<^verbatim>\<open>then\<close> reaches \<^verbatim>\<open>catch\<close>.
\<close>

definition await_data :: "settled \<Rightarrow> retval" where
  "await_data s =
     (case s of
        Fulfilled resp \<Rightarrow>
          (case response_data resp of
             Inr d \<Rightarrow> Plain d
           | Inl error \<Rightarrow> catch_handler error)
      | Failed error \<Rightarrow> catch_handler error)"

section \<open>The ES module (the file with \<^verbatim>\<open>export default Ethercalc\<close>)\<close>

definition DEFAULT_SNAPSHOT :: string where "DEFAULT_SNAPSHOT = ''...''"
definition DEFAULT_HOST :: string where "DEFAULT_HOST = ''localhost''"
text \<open>The number 8000, as the template literal of the base URL prints it.\<close>
definition DEFAULT_PORT :: string where "DEFAULT_PORT = ''8000''"
definition DEFAULT_PROTOCOL :: string where "DEFAULT_PROTOCOL = ''http''"
definition DEFAULT_TIMEOUT :: nat where "DEFAULT_TIMEOUT = 2500"

definition SOCIALCALC :: string where "SOCIALCALC = ''socialcalc''"
definition XLSX :: string where "XLSX = ''xlsx''"
definition CSV :: string where "CSV = ''csv''"

text \<open>The constructor; \<open>None\<close> is an argument left out, which takes the default.\<close>

definition Ethercalc ::
  "(request \<Rightarrow> settled) \<Rightarrow> string option \<Rightarrow> string option \<Rightarrow> string option \<Rightarrow> nat option
     \<Rightarrow> ethercalc" where
  "Ethercalc net host port protocol tmo =
     \<lparr>baseURL =
        (case protocol of None \<Rightarrow> DEFAULT_PROTOCOL | Some p \<Rightarrow> p) @ ''://'' @
        (case host of None \<Rightarrow> DEFAULT_HOST | Some h \<Rightarrow> h) @ '':'' @
        (case port of None \<Rightarrow> DEFAULT_PORT | Some p \<Rightarrow> p),
      default_timeout = (case tmo of None \<Rightarrow> DEFAULT_TIMEOUT | Some t \<Rightarrow> t),
      send = net\<rparr>"

definition getRoom :: "ethercalc \<Rightarrow> jsval \<Rightarrow> call_result" where
  "getRoom this room =
     (let req = axios_get (''/_/'' @ to_string room)
      in ([req], Resolved (await_data (send this req))))"

definition createRoom :: "ethercalc \<Rightarrow> jsval \<Rightarrow> jsval \<Rightarrow> call_result" where
  "createRoom this room snapshot =
     (let tmo = \<lparr>headers = [], timeout = Some 10000\<rparr> in
      if truthy room then
        (let req = axios_post (''/_/'' @ to_string room)
                     (Form (qs_stringify [(''room'', room), (''snapshot'', snapshot)])) tmo
         in ([req], Resolved (await_data (send this req))))
      else
        (let snapshot' = (if truthy snapshot then snapshot else JStr DEFAULT_SNAPSHOT);
             req = axios_post ''/_'' (Form (qs_stringify [(''snapshot'', snapshot')])) tmo
         in ([req], Resolved (await_data (send this req)))))"

text \<open>
  The function is \<^verbatim>\<open>async\<close>: the Error of an unknown format is the value its promise is
  resolved with. \<^verbatim>\<open>Buffer.from(snapshot)\<close> is evaluated inside \<^verbatim>\<open>try\<close>.
\<close>

definition overwrite :: "ethercalc \<Rightarrow> jsval \<Rightarrow> jsval \<Rightarrow> jsval \<Rightarrow> call_result" where
  "overwrite this room snapshot type =
     (case (if type = JStr SOCIALCALC then Some [(''Content-Type'', ''text/x-socialcalc'')]
            else if type = JStr XLSX then
              Some [(''Content-Type'',
                     ''application/vnd.openxmlformats-officedocument.spreadsheetml.sheet'')]
            else if type = JStr CSV then Some [(''Content-Type'', ''text/csv'')]
            else None) of
        None \<Rightarrow>
          ([], Resolved (ErrorObject (Error ''Format must be one of socialcalc, xlsx or csv!'')))
      | Some hs \<Rightarrow>
          (case Buffer_from snapshot of
             Inl error \<Rightarrow> ([], Resolved (catch_handler error))
           | Inr buf \<Rightarrow>
               (let req = axios_put (''/_/'' @ to_string room) buf
                            \<lparr>headers = hs, timeout = None\<rparr>
                in ([req], Resolved (await_data (send this req))))))"

definition createRoomFromCSVFile :: "ethercalc \<Rightarrow> string \<Rightarrow> call_result" where
  "createRoomFromCSVFile this path =
     (let req = axios_post ''/_/'' (ReadStream path)
                  \<lparr>headers = [(''Content-Type'', ''text/csv'')], timeout = None\<rparr>
      in ([req], Resolved (await_data (send this req))))"

text \<open>\<^verbatim>\<open>if (response) return true;\<close> and nothing after it: no response gives undefined.\<close>

definition deleteRoom :: "ethercalc \<Rightarrow> jsval \<Rightarrow> call_result" where
  "deleteRoom this room =
     (let req = axios_delete (''/_/'' @ to_string room)
      in ([req],
          Resolved
            (case send this req of
               Fulfilled resp \<Rightarrow>
                 (case resp of Some r \<Rightarrow> Plain (JBool True) | None \<Rightarrow> Plain JUndefined)
             | Failed error \<Rightarrow> catch_handler error)))"

definition roomExists :: "ethercalc \<Rightarrow> jsval \<Rightarrow> call_result" where
  "roomExists this room =
     (let req = axios_get (''/_exists/'' @ to_string room)
      in ([req],
          Resolved
            (case send this req of
               Fulfilled resp \<Rightarrow>
                 (case resp of Some r \<Rightarrow> Plain (data r) | None \<Rightarrow> Plain JUndefined)
             | Failed error \<Rightarrow> Plain (JBool False))))"

text \<open>\<^verbatim>\<open>type.toLowerCase()\<close> stands before \<^verbatim>\<open>try\<close>: its TypeError rejects the promise.\<close>

definition exportRoom :: "ethercalc \<Rightarrow> jsval \<Rightarrow> jsval \<Rightarrow> call_result" where
  "exportRoom this room type =
     (case toLowerCase type of
        Inl error \<Rightarrow> ([], Rejected error)
      | Inr lowered \<Rightarrow>
          (let type' = (if lowered = ''csv.json'' \<or> lowered = XLSX \<or> lowered = ''md''
                           \<or> lowered = ''html''
                        then lowered else CSV);
               req = axios_get (''/_/'' @ to_string room @ ''/'' @ type')
           in ([req], Resolved (await_data (send this req)))))"

definition listRooms :: "ethercalc \<Rightarrow> call_result" where
  "listRooms this =
     (let req = axios_get ''/_rooms''
      in ([req], Resolved (await_data (send this req))))"

definition postCommand :: "ethercalc \<Rightarrow> jsval \<Rightarrow> jsval \<Rightarrow> call_result" where
  "postCommand this room command =
     (let req = axios_post (''/_/'' @ to_string room) (Form (qs_stringify [(''command'', command)])) no_config
      in ([req], Resolved (await_data (send this req))))"

definition appendRowsFromCSVFile :: "ethercalc \<Rightarrow> jsval \<Rightarrow> string \<Rightarrow> call_result" where
  "appendRowsFromCSVFile this room path =
     (let req = axios_post (''/_/'' @ to_string room) (ReadStream path)
                  \<lparr>headers = [(''Content-Type'', ''text/csv'')], timeout = None\<rparr>
      in ([req], Resolved (await_data (send this req))))"

definition getCells :: "ethercalc \<Rightarrow> jsval \<Rightarrow> call_result" where
  "getCells this room =
     (let req = axios_get (''/_/'' @ to_string room @ ''/cells'')
      in ([req], Resolved (await_data (send this req))))"

definition getCellValue :: "ethercalc \<Rightarrow> jsval \<Rightarrow> jsval \<Rightarrow> call_result" where
  "getCellValue this room coord =
     (let req = axios_get (''/_/'' @ to_string room @ ''/cells/'' @ to_string coord)
      in ([req], Resolved (await_data (send this req))))"

definition getHTML :: "ethercalc \<Rightarrow> jsval \<Rightarrow> call_result" where
  "getHTML this room =
     (let req = axios_get (''/_/'' @ to_string room @ ''/html'')
      in ([req], Resolved (await_data (send this req))))"

definition getCSV :: "ethercalc \<Rightarrow> jsval \<Rightarrow> call_result" where
  "getCSV this room =
     (let req = axios_get (''/_/'' @ to_string room @ ''/csv'')
      in ([req], Resolved (await_data (send this req))))"

definition getJSON :: "ethercalc \<Rightarrow> jsval \<Rightarrow> call_result" where
  "getJSON this room =
     (let req = axios_get (''/_/'' @ to_string room @ ''/csv.json'')
      in ([req], Resolved (await_data (send this req))))"

section \<open>The CommonJS file (\<^verbatim>\<open>index.js\<close>, with \<^verbatim>\<open>module.exports = Ethercalc\<close>)\<close>

text \<open>
  Its methods are plain functions that return a promise chain: what is thrown before
  the chain is built is thrown at the caller, and a value returned without a chain is
  not a promise. The constructor takes a host and a port only.
\<close>

definition Ethercalc_cjs ::
  "(request \<Rightarrow> settled) \<Rightarrow> string option \<Rightarrow> string option \<Rightarrow> ethercalc" where
  "Ethercalc_cjs net host port =
     \<lparr>baseURL =
        ''http://'' @ (case host of None \<Rightarrow> ''localhost'' | Some h \<Rightarrow> h) @ '':'' @
        (case port of None \<Rightarrow> ''8000'' | Some p \<Rightarrow> p),
      default_timeout = 2500,
      send = net\<rparr>"

definition getRoom_cjs :: "ethercalc \<Rightarrow> jsval \<Rightarrow> call_result" where
  "getRoom_cjs this room =
     (let req = axios_get (''/_/'' @ to_string room)
      in ([req], Resolved (await_data (send this req))))"

definition createRoom_cjs :: "ethercalc \<Rightarrow> jsval \<Rightarrow> jsval \<Rightarrow> call_result" where
  "createRoom_cjs this room snapshot =
     (let tmo = \<lparr>headers = [], timeout = Some 10000\<rparr> in
      if truthy room then
        (let req = axios_post (''/_/'' @ to_string room)
                     (Form (qs_stringify [(''room'', room), (''snapshot'', snapshot)])) tmo
         in ([req], Resolved (await_data (send this req))))
      else
        (let req = axios_post ''/_'' (Form (qs_stringify [(''snapshot'', snapshot)])) tmo
         in ([req], Resolved (await_data (send this req)))))"

definition overwrite_cjs :: "ethercalc \<Rightarrow> jsval \<Rightarrow> jsval \<Rightarrow> jsval \<Rightarrow> call_result" where
  "overwrite_cjs this room snapshot type =
     (case (if type = JStr ''socialcalc'' then Some [(''Content-Type'', ''text/x-socialcalc'')]
            else if type = JStr ''xlsx'' then
              Some [(''Content-Type'',
                     ''application/vnd.openxmlformats-officedocument.spreadsheetml.sheet'')]
            else if type = JStr ''csv'' then Some [(''Content-Type'', ''text/csv'')]
            else None) of
        None \<Rightarrow>
          ([], Returned (ErrorObject (Error ''Format must be one of socialcalc, xlsx or csv!'')))
      | Some hs \<Rightarrow>
          (case Buffer_from snapshot of
             Inl error \<Rightarrow> ([], Thrown error)
           | Inr buf \<Rightarrow>
               (let req = axios_put (''/_/'' @ to_string room) buf
                            \<lparr>headers = hs, timeout = None\<rparr>
                in ([req], Resolved (await_data (send this req))))))"

definition createRoomFromCSVFile_cjs :: "ethercalc \<Rightarrow> string \<Rightarrow> call_result" where
  "createRoomFromCSVFile_cjs this path =
     (let req = axios_post ''/_/'' (ReadStream path)
                  \<lparr>headers = [(''Content-Type'', ''text/csv'')], timeout = None\<rparr>
      in ([req], Resolved (await_data (send this req))))"

text \<open>\<^verbatim>\<open>.then(response => { return true; })\<close>: the response is not looked at.\<close>

definition deleteRoom_cjs :: "ethercalc \<Rightarrow> jsval \<Rightarrow> call_result" where
  "deleteRoom_cjs this room =
     (let req = axios_delete (''/_/'' @ to_string room)
      in ([req],
          Resolved
            (case send this req of
               Fulfilled resp \<Rightarrow> Plain (JBool True)
             | Failed error \<Rightarrow> catch_handler error)))"

text \<open>
  \<^verbatim>\<open>.then(response => response.data).catch(error => false)\<close>: the TypeError of reading
  \<^verbatim>\<open>data\<close> off no response is caught as well.
\<close>

definition roomExists_cjs :: "ethercalc \<Rightarrow> jsval \<Rightarrow> call_result" where
  "roomExists_cjs this room =
     (let req = axios_get (''/_exists/'' @ to_string room)
      in ([req],
          Resolved
            (case send this req of
               Fulfilled resp \<Rightarrow>
                 (case response_data resp of
                    Inr d \<Rightarrow> Plain d
                  | Inl error \<Rightarrow> Plain (JBool False))
             | Failed error \<Rightarrow> Plain (JBool False))))"

definition exportRoom_cjs :: "ethercalc \<Rightarrow> jsval \<Rightarrow> jsval \<Rightarrow> call_result" where
  "exportRoom_cjs this room type =
     (case toLowerCase type of
        Inl error \<Rightarrow> ([], Thrown error)
      | Inr lowered \<Rightarrow>
          (let type' = (if lowered = ''csv.json'' \<or> lowered = ''xlsx'' \<or> lowered = ''md''
                           \<or> lowered = ''html''
                        then lowered else ''csv'');
               req = axios_get (''/_/'' @ to_string room @ ''/'' @ type')
           in ([req], Resolved (await_data (send this req)))))"

definition listRooms_cjs :: "ethercalc \<Rightarrow> call_result" where
  "listRooms_cjs this =
     (let req = axios_get ''/_rooms''
      in ([req], Resolved (await_data (send this req))))"

definition postCommand_cjs :: "ethercalc \<Rightarrow> jsval \<Rightarrow> jsval \<Rightarrow> call_result" where
  "postCommand_cjs this room command =
     (let req = axios_post (''/_/'' @ to_string room) (Form (qs_stringify [(''command'', command)])) no_config
      in ([req], Resolved (await_data (send this req))))"

definition appendRowsFromCSVFile_cjs :: "ethercalc \<Rightarrow> jsval \<Rightarrow> string \<Rightarrow> call_result" where
  "appendRowsFromCSVFile_cjs this room path =
     (let req = axios_post (''/_/'' @ to_string room) (ReadStream path)
                  \<lparr>headers = [(''Content-Type'', ''text/csv'')], timeout = None\<rparr>
      in ([req], Resolved (await_data (send this req))))"

definition getCells_cjs :: "ethercalc \<Rightarrow> jsval \<Rightarrow> call_result" where
  "getCells_cjs this room =
     (let req = axios_get (''/_/'' @ to_string room @ ''/cells'')
      in ([req], Resolved (await_data (send this req))))"

definition getCellValue_cjs :: "ethercalc \<Rightarrow> jsval \<Rightarrow> jsval \<Rightarrow> call_result" where
  "getCellValue_cjs this room coord =
     (let req = axios_get (''/_/'' @ to_string room @ ''/cells/'' @ to_string coord)
      in ([req], Resolved (await_data (send this req))))"

definition getHTML_cjs :: "ethercalc \<Rightarrow> jsval \<Rightarrow> call_result" where
  "getHTML_cjs this room =
     (let req = axios_get (''/_/'' @ to_string room @ ''/html'')
      in ([req], Resolved (await_data (send this req))))"

section \<open>The public operations as one type\<close>

text \<open>A call of a public method with its arguments, to speak of every operation at once.\<close>

datatype operation =
    GetRoom jsval
  | CreateRoom jsval jsval
  | Overwrite jsval jsval jsval
  | CreateRoomFromCSVFile string
  | DeleteRoom jsval
  | RoomExists jsval
  | ExportRoom jsval jsval
  | ListRooms
  | PostCommand jsval jsval
  | AppendRowsFromCSVFile jsval string
  | GetCells jsval
  | GetCellValue jsval jsval
  | GetHTML jsval
  | GetCSV jsval
  | GetJSON jsval

fun invoke :: "ethercalc \<Rightarrow> operation \<Rightarrow> call_result" where
  "invoke this (GetRoom room) = getRoom this room"
| "invoke this (CreateRoom room snapshot) = createRoom this room snapshot"
| "invoke this (Overwrite room snapshot type) = overwrite this room snapshot type"
| "invoke this (CreateRoomFromCSVFile path) = createRoomFromCSVFile this path"
| "invoke this (DeleteRoom room) = deleteRoom this room"
| "invoke this (RoomExists room) = roomExists this room"
| "invoke this (ExportRoom room type) = exportRoom this room type"
| "invoke this ListRooms = listRooms this"
| "invoke this (PostCommand room command) = postCommand this room command"
| "invoke this (AppendRowsFromCSVFile room path) = appendRowsFromCSVFile this room path"
| "invoke this (GetCells room) = getCells this room"
| "invoke this (GetCellValue room coord) = getCellValue this room coord"
| "invoke this (GetHTML room) = getHTML this room"
| "invoke this (GetCSV room) = getCSV this room"
| "invoke this (GetJSON room) = getJSON this room"

text \<open>
  The CommonJS file has no \<^verbatim>\<open>getCSV\<close> and no \<^verbatim>\<open>getJSON\<close>: calling a method an object
  does not have is a TypeError at the caller, and no request is made.
\<close>

fun invoke_cjs :: "ethercalc \<Rightarrow> operation \<Rightarrow> call_result" where
  "invoke_cjs this (GetRoom room) = getRoom_cjs this room"
| "invoke_cjs this (CreateRoom room snapshot) = createRoom_cjs this room snapshot"
| "invoke_cjs this (Overwrite room snapshot type) = overwrite_cjs this room snapshot type"
| "invoke_cjs this (CreateRoomFromCSVFile path) = createRoomFromCSVFile_cjs this path"
| "invoke_cjs this (DeleteRoom room) = deleteRoom_cjs this room"
| "invoke_cjs this (RoomExists room) = roomExists_cjs this room"
| "invoke_cjs this (ExportRoom room type) = exportRoom_cjs this room type"
| "invoke_cjs this ListRooms = listRooms_cjs this"
| "invoke_cjs this (PostCommand room command) = postCommand_cjs this room command"
| "invoke_cjs this (AppendRowsFromCSVFile room path) = appendRowsFromCSVFile_cjs this room path"
| "invoke_cjs this (GetCells room) = getCells_cjs this room"
| "invoke_cjs this (GetCellValue room coord) = getCellValue_cjs this room coord"
| "invoke_cjs this (GetHTML room) = getHTML_cjs this room"
| "invoke_cjs this (GetCSV room) = ([], Thrown TypeError)"
| "invoke_cjs this (GetJSON room) = ([], Thrown TypeError)"


fun is_createRoom :: "operation \<Rightarrow> bool" where
  "is_createRoom (CreateRoom room snapshot) = True"
| "is_createRoom op = False"

text \<open>The two files of the repository, and a call of an operation on either.\<close>

datatype module = ESModule | CommonJS

fun call :: "module \<Rightarrow> ethercalc \<Rightarrow> operation \<Rightarrow> call_result" where
  "call ESModule this op = invoke this op"
| "call CommonJS this op = invoke_cjs this op"


section \<open>Simulated services\<close>

text \<open>
  A service that answers every request 404 Not Found, one that cannot be reached, and one
  that answers every request 200 OK with a given body.
\<close>

definition not_found :: "request \<Rightarrow> settled" where
  "not_found req =
     Failed (AxiosError ''ERR_BAD_REQUEST''
       (Some \<lparr>status = 404, statusText = ''Not Found'', data = JStr []\<rparr>))"

definition connection_refused :: "request \<Rightarrow> settled" where
  "connection_refused req = Failed (AxiosError ''ECONNREFUSED'' None)"

definition answers :: "jsval \<Rightarrow> request \<Rightarrow> settled" where
  "answers d req = Fulfilled (Some \<lparr>status = 200, statusText = ''OK'', data = d\<rparr>)"

section \<open>Facts shared by the proofs\<close>

lemmas request_defs = axios_get_def axios_delete_def axios_post_def axios_put_def no_config_def

lemmas esm_defs =
  getRoom_def createRoom_def overwrite_def createRoomFromCSVFile_def deleteRoom_def
  roomExists_def exportRoom_def listRooms_def postCommand_def appendRowsFromCSVFile_def
  getCells_def getCellValue_def getHTML_def getCSV_def getJSON_def

lemmas cjs_defs =
  getRoom_cjs_def createRoom_cjs_def overwrite_cjs_def createRoomFromCSVFile_cjs_def
  deleteRoom_cjs_def roomExists_cjs_def exportRoom_cjs_def listRooms_cjs_def
  postCommand_cjs_def appendRowsFromCSVFile_cjs_def getCells_cjs_def getCellValue_cjs_def
  getHTML_cjs_def

lemmas constant_defs =
  DEFAULT_SNAPSHOT_def DEFAULT_HOST_def DEFAULT_PORT_def DEFAULT_PROTOCOL_def
  DEFAULT_TIMEOUT_def SOCIALCALC_def XLSX_def CSV_def

lemma await_data_http_error:
  "response error = Some r \<Longrightarrow>
     await_data (Failed error) = StatusMessage (status r) (statusText r)"
  by (simp add: await_data_def catch_handler_def)

lemma await_data_no_response:
  "response error = None \<Longrightarrow> await_data (Failed error) = ErrorObject error"
  by (simp add: await_data_def catch_handler_def)

lemma await_data_response: "await_data (Fulfilled (Some r)) = Plain (data r)"
  by (simp add: await_data_def response_data_def)

lemma send_Ethercalc [simp]: "send (Ethercalc net host port protocol tmo) = net"
  by (simp add: Ethercalc_def)

lemma send_Ethercalc_cjs [simp]: "send (Ethercalc_cjs net host port) = net"
  by (simp add: Ethercalc_cjs_def)

section \<open>Failures that carry a response\<close>






section \<open>The format of an overwrite\<close>

lemma overwrite_unknown_format:
  assumes "type \<noteq> JStr ''socialcalc''" and "type \<noteq> JStr ''xlsx''" and "type \<noteq> JStr ''csv''"
  shows "overwrite this room snapshot type =
           ([], Resolved (ErrorObject (Error ''Format must be one of socialcalc, xlsx or csv!'')))"
    and "overwrite_cjs this room snapshot type =
           ([], Returned (ErrorObject (Error ''Format must be one of socialcalc, xlsx or csv!'')))"
  using assms by (simp_all add: overwrite_def overwrite_cjs_def constant_defs)

lemma overwrite_known_format:
  assumes "(t, mime) \<in> {(''socialcalc'', ''text/x-socialcalc''),
             (''xlsx'', ''application/vnd.openxmlformats-officedocument.spreadsheetml.sheet''),
             (''csv'', ''text/csv'')}"
    and "req \<in> set (fst (overwrite this room snapshot (JStr t))) \<union>
               set (fst (overwrite_cjs this room snapshot (JStr t)))"
  shows "req = \<lparr>verb = PUT, url = ''/_/'' @ to_string room, payload = Buffer snapshot,
                config = \<lparr>headers = [(''Content-Type'', mime)], timeout = None\<rparr>\<rparr>"
  using assms
  by (cases snapshot)
     (auto simp: overwrite_def overwrite_cjs_def constant_defs axios_put_def Let_def)

lemma overwrite_issues_put:
  assumes "(t, mime) \<in> {(''socialcalc'', ''text/x-socialcalc''),
             (''xlsx'', ''application/vnd.openxmlformats-officedocument.spreadsheetml.sheet''),
             (''csv'', ''text/csv'')}"
  shows "fst (overwrite this room (JStr s) (JStr t)) =
           [\<lparr>verb = PUT, url = ''/_/'' @ to_string room, payload = Buffer (JStr s),
             config = \<lparr>headers = [(''Content-Type'', mime)], timeout = None\<rparr>\<rparr>]"
    and "fst (overwrite_cjs this room (JStr s) (JStr t)) =
           [\<lparr>verb = PUT, url = ''/_/'' @ to_string room, payload = Buffer (JStr s),
             config = \<lparr>headers = [(''Content-Type'', mime)], timeout = None\<rparr>\<rparr>]"
  using assms
  by (auto simp: overwrite_def overwrite_cjs_def constant_defs axios_put_def Let_def)
text \<open>
  C2, as the code has it. A format that is not exactly \<^verbatim>\<open>socialcalc\<close>, \<^verbatim>\<open>xlsx\<close> or \<^verbatim>\<open>csv\<close> gives the Error
  value and no request: the CommonJS function returns the Error itself, the \<^verbatim>\<open>async\<close>
  function of the ES module returns a promise already resolved with it, before anything
  is awaited. For each of the three formats every request issued is the PUT on the room
  with the documented Content-Type as its only header, and for a string snapshot exactly
  that one request is issued.
\<close>

theorem overwrite_format:
  "(type \<noteq> JStr ''socialcalc'' \<and> type \<noteq> JStr ''xlsx'' \<and> type \<noteq> JStr ''csv'' \<longrightarrow>
      overwrite this room snapshot type =
        ([], Resolved (ErrorObject (Error ''Format must be one of socialcalc, xlsx or csv!''))) \<and>
      overwrite_cjs this room snapshot type =
        ([], Returned (ErrorObject (Error ''Format must be one of socialcalc, xlsx or csv!'')))) \<and>
   ((t, mime) \<in> {(''socialcalc'', ''text/x-socialcalc''),
        (''xlsx'', ''application/vnd.openxmlformats-officedocument.spreadsheetml.sheet''),
        (''csv'', ''text/csv'')} \<longrightarrow>
      (\<forall>req \<in> set (fst (overwrite this room snapshot (JStr t))) \<union>
                set (fst (overwrite_cjs this room snapshot (JStr t))).
         req = \<lparr>verb = PUT, url = ''/_/'' @ to_string room, payload = Buffer snapshot,
                 config = \<lparr>headers = [(''Content-Type'', mime)], timeout = None\<rparr>\<rparr>) \<and>
      fst (overwrite this room (JStr s) (JStr t)) =
        [\<lparr>verb = PUT, url = ''/_/'' @ to_string room, payload = Buffer (JStr s),
          config = \<lparr>headers = [(''Content-Type'', mime)], timeout = None\<rparr>\<rparr>] \<and>
      fst (overwrite_cjs this room (JStr s) (JStr t)) =
        [\<lparr>verb = PUT, url = ''/_/'' @ to_string room, payload = Buffer (JStr s),
          config = \<lparr>headers = [(''Content-Type'', mime)], timeout = None\<rparr>\<rparr>])"
proof (intro conjI impI ballI)
  assume "type \<noteq> JStr ''socialcalc'' \<and> type \<noteq> JStr ''xlsx'' \<and> type \<noteq> JStr ''csv''"
  then show "overwrite this room snapshot type =
      ([], Resolved (ErrorObject (Error ''Format must be one of socialcalc, xlsx or csv!'')))"
    and "overwrite_cjs this room snapshot type =
      ([], Returned (ErrorObject (Error ''Format must be one of socialcalc, xlsx or csv!'')))"
    by (simp_all add: overwrite_unknown_format)
next
  fix req
  assume "(t, mime) \<in> {(''socialcalc'', ''text/x-socialcalc''),
        (''xlsx'', ''application/vnd.openxmlformats-officedocument.spreadsheetml.sheet''),
        (''csv'', ''text/csv'')}"
    and "req \<in> set (fst (overwrite this room snapshot (JStr t))) \<union>
               set (fst (overwrite_cjs this room snapshot (JStr t)))"
  then show "req = \<lparr>verb = PUT, url = ''/_/'' @ to_string room, payload = Buffer snapshot,
                 config = \<lparr>headers = [(''Content-Type'', mime)], timeout = None\<rparr>\<rparr>"
    by (rule overwrite_known_format)
next
  assume *: "(t, mime) \<in> {(''socialcalc'', ''text/x-socialcalc''),
        (''xlsx'', ''application/vnd.openxmlformats-officedocument.spreadsheetml.sheet''),
        (''csv'', ''text/csv'')}"
  show "fst (overwrite this room (JStr s) (JStr t)) =
        [\<lparr>verb = PUT, url = ''/_/'' @ to_string room, payload = Buffer (JStr s),
          config = \<lparr>headers = [(''Content-Type'', mime)], timeout = None\<rparr>\<rparr>]"
    by (rule overwrite_issues_put(1) [OF *])
  show "fst (overwrite_cjs this room (JStr s) (JStr t)) =
        [\<lparr>verb = PUT, url = ''/_/'' @ to_string room, payload = Buffer (JStr s),
          config = \<lparr>headers = [(''Content-Type'', mime)], timeout = None\<rparr>\<rparr>]"
    by (rule overwrite_issues_put(2) [OF *])
qed

theorem overwrite_format_witness:
  "overwrite (Ethercalc (answers (JStr ''OK'')) None None None None)
       (JStr ''room1'') (JStr ''a,b'') (JStr ''CSV'') =
     ([], Resolved (ErrorObject (Error ''Format must be one of socialcalc, xlsx or csv!''))) \<and>
   overwrite_cjs (Ethercalc_cjs (answers (JStr ''OK'')) None None)
       (JStr ''room1'') (JStr ''a,b'') (JStr ''CSV'') =
     ([], Returned (ErrorObject (Error ''Format must be one of socialcalc, xlsx or csv!''))) \<and>
   fst (overwrite (Ethercalc (answers (JStr ''OK'')) None None None None)
       (JStr ''room1'') (JStr ''a,b'') (JStr ''csv'')) =
     [\<lparr>verb = PUT, url = ''/_/room1'', payload = Buffer (JStr ''a,b''),
       config = \<lparr>headers = [(''Content-Type'', ''text/csv'')], timeout = None\<rparr>\<rparr>] \<and>
   set (fst (overwrite (Ethercalc (answers (JStr ''OK'')) None None None None)
       (JStr ''room1'') (JStr ''a,b'') (JStr ''csv''))) \<noteq> {}"
proof -
  let ?esm = "Ethercalc (answers (JStr ''OK'')) None None None None"
  let ?cjs = "Ethercalc_cjs (answers (JStr ''OK'')) None None"
  have ne: "JStr ''CSV'' \<noteq> JStr ''socialcalc'' \<and> JStr ''CSV'' \<noteq> JStr ''xlsx'' \<and>
            JStr ''CSV'' \<noteq> JStr ''csv''"
    by simp
  have mem: "(''csv'', ''text/csv'') \<in> {(''socialcalc'', ''text/x-socialcalc''),
        (''xlsx'', ''application/vnd.openxmlformats-officedocument.spreadsheetml.sheet''),
        (''csv'', ''text/csv'')}"
    by simp
  from overwrite_format [of "JStr ''CSV''" ?esm "JStr ''room1''" "JStr ''a,b''" t mime s] ne
  have 1: "overwrite ?esm (JStr ''room1'') (JStr ''a,b'') (JStr ''CSV'') =
     ([], Resolved (ErrorObject (Error ''Format must be one of socialcalc, xlsx or csv!'')))"
    by blast
  from overwrite_format [of "JStr ''CSV''" ?cjs "JStr ''room1''" "JStr ''a,b''" t mime s] ne
  have 2: "overwrite_cjs ?cjs (JStr ''room1'') (JStr ''a,b'') (JStr ''CSV'') =
     ([], Returned (ErrorObject (Error ''Format must be one of socialcalc, xlsx or csv!'')))"
    by blast
  from overwrite_format
    [of "JStr ''CSV''" ?esm "JStr ''room1''" "JStr ''a,b''" "''csv''" "''text/csv''" "''a,b''"] mem
  have 3: "fst (overwrite ?esm (JStr ''room1'') (JStr ''a,b'') (JStr ''csv'')) =
     [\<lparr>verb = PUT, url = ''/_/'' @ to_string (JStr ''room1''), payload = Buffer (JStr ''a,b''),
       config = \<lparr>headers = [(''Content-Type'', ''text/csv'')], timeout = None\<rparr>\<rparr>]"
    by blast
  show ?thesis using 1 2 3 by simp
qed

text \<open>
  C2, as it is written, fails for the ES module: its \<^verbatim>\<open>overwrite\<close> is an \<^verbatim>\<open>async\<close> function,
  so with the unknown format \<^verbatim>\<open>pdf\<close> the caller gets a promise resolved with the Error,
  not the Error itself as the return value.
\<close>

theorem overwrite_async_counterexample:
  "overwrite (Ethercalc (answers (JStr ''OK'')) None None None None)
       (JStr ''room1'') (JStr ''a,b'') (JStr ''pdf'') =
     ([], Resolved (ErrorObject (Error ''Format must be one of socialcalc, xlsx or csv!''))) \<and>
   snd (overwrite (Ethercalc (answers (JStr ''OK'')) None None None None)
       (JStr ''room1'') (JStr ''a,b'') (JStr ''pdf'')) \<noteq>
     Returned (ErrorObject (Error ''Format must be one of socialcalc, xlsx or csv!''))"
  by (simp add: overwrite_def constant_defs)

section \<open>roomExists\<close>

text \<open>
  C3. \<^verbatim>\<open>roomExists\<close> asks \<^verbatim>\<open>/_exists/{room}\<close>. When the request is fulfilled with a response,
  the call resolves to the body of that response; when it is rejected, with or without a
  response of the server, the call resolves to \<^verbatim>\<open>false\<close>. Both files agree.
\<close>

theorem roomExists_outcome:
  "(send this (axios_get (''/_exists/'' @ to_string room)) = Fulfilled (Some r) \<longrightarrow>
      roomExists this room =
        ([axios_get (''/_exists/'' @ to_string room)], Resolved (Plain (data r))) \<and>
      roomExists_cjs this room =
        ([axios_get (''/_exists/'' @ to_string room)], Resolved (Plain (data r)))) \<and>
   (send this (axios_get (''/_exists/'' @ to_string room)) = Failed error \<longrightarrow>
      roomExists this room =
        ([axios_get (''/_exists/'' @ to_string room)], Resolved (Plain (JBool False))) \<and>
      roomExists_cjs this room =
        ([axios_get (''/_exists/'' @ to_string room)], Resolved (Plain (JBool False))))"
  by (simp add: roomExists_def roomExists_cjs_def Let_def response_data_def)

theorem roomExists_outcome_witness:
  "roomExists (Ethercalc (answers (JBool True)) None None None None) (JStr ''room1'') =
     ([axios_get ''/_exists/room1''], Resolved (Plain (JBool True))) \<and>
   roomExists (Ethercalc not_found None None None None) (JStr ''room1'') =
     ([axios_get ''/_exists/room1''], Resolved (Plain (JBool False))) \<and>
   roomExists_cjs (Ethercalc_cjs connection_refused None None) (JStr ''room1'') =
     ([axios_get ''/_exists/room1''], Resolved (Plain (JBool False)))"
proof -
  let ?ok = "Ethercalc (answers (JBool True)) None None None None"
  let ?nf = "Ethercalc not_found None None None None"
  let ?cr = "Ethercalc_cjs connection_refused None None"
  let ?r = "\<lparr>status = 200, statusText = ''OK'', data = JBool True\<rparr>"
  have a: "send ?ok (axios_get (''/_exists/'' @ to_string (JStr ''room1''))) = Fulfilled (Some ?r)"
    by (simp add: answers_def)
  have b: "send ?nf (axios_get (''/_exists/'' @ to_string (JStr ''room1''))) =
             Failed (AxiosError ''ERR_BAD_REQUEST''
               (Some \<lparr>status = 404, statusText = ''Not Found'', data = JStr []\<rparr>))"
    by (simp add: not_found_def)
  have c: "send ?cr (axios_get (''/_exists/'' @ to_string (JStr ''room1''))) =
             Failed (AxiosError ''ECONNREFUSED'' None)"
    by (simp add: connection_refused_def)
  show ?thesis
    using roomExists_outcome [of ?ok "JStr ''room1''" ?r error] a
      roomExists_outcome [of ?nf "JStr ''room1''" r
        "AxiosError ''ERR_BAD_REQUEST''
           (Some \<lparr>status = 404, statusText = ''Not Found'', data = JStr []\<rparr>)"] b
      roomExists_outcome [of ?cr "JStr ''room1''" r "AxiosError ''ECONNREFUSED'' None"] c
    by simp
qed

section \<open>Failures without a response\<close>





section \<open>exportRoom\<close>

lemma lower_char_examples:
  "map lower_char ''CSV.JSON'' = ''csv.json''"
  "map lower_char ''HTML'' = ''html''"
  "map lower_char ''md'' = ''md''"
  "map lower_char ''unknownformat'' = ''unknownformat''"
  by code_simp+

text \<open>
  C5. For every string \<^verbatim>\<open>type\<close>, \<^verbatim>\<open>exportRoom\<close> lower-cases it. When the lower-cased value is
  \<^verbatim>\<open>csv.json\<close>, \<^verbatim>\<open>xlsx\<close>, \<^verbatim>\<open>md\<close> or \<^verbatim>\<open>html\<close>, the one request is the GET of
  \<^verbatim>\<open>/_/{room}/{lower-cased type}\<close>; for every other string it is the GET of \<^verbatim>\<open>/_/{room}/csv\<close>,
  and the call is then the very call \<^verbatim>\<open>getCSV\<close> makes: no error comes from the type.
\<close>

theorem exportRoom_target:
  "(map lower_char t \<in> {''csv.json'', ''xlsx'', ''md'', ''html''} \<longrightarrow>
      exportRoom this room (JStr t) =
        ([axios_get (''/_/'' @ to_string room @ ''/'' @ map lower_char t)],
         Resolved (await_data
           (send this (axios_get (''/_/'' @ to_string room @ ''/'' @ map lower_char t))))) \<and>
      exportRoom_cjs this room (JStr t) =
        ([axios_get (''/_/'' @ to_string room @ ''/'' @ map lower_char t)],
         Resolved (await_data
           (send this (axios_get (''/_/'' @ to_string room @ ''/'' @ map lower_char t)))))) \<and>
   (map lower_char t \<notin> {''csv.json'', ''xlsx'', ''md'', ''html''} \<longrightarrow>
      exportRoom this room (JStr t) = getCSV this room \<and>
      exportRoom this room (JStr t) =
        ([axios_get (''/_/'' @ to_string room @ ''/csv'')],
         Resolved (await_data (send this (axios_get (''/_/'' @ to_string room @ ''/csv''))))) \<and>
      exportRoom_cjs this room (JStr t) =
        ([axios_get (''/_/'' @ to_string room @ ''/csv'')],
         Resolved (await_data (send this (axios_get (''/_/'' @ to_string room @ ''/csv''))))))"
  by (auto simp: exportRoom_def exportRoom_cjs_def getCSV_def Let_def XLSX_def CSV_def)

theorem exportRoom_target_witness:
  "fst (exportRoom (Ethercalc (answers (JStr ''x'')) None None None None)
          (JStr ''room1'') (JStr ''CSV.JSON'')) = [axios_get ''/_/room1/csv.json''] \<and>
   fst (exportRoom_cjs (Ethercalc_cjs (answers (JStr ''x'')) None None)
          (JStr ''room1'') (JStr ''HTML'')) = [axios_get ''/_/room1/html''] \<and>
   exportRoom (Ethercalc (answers (JStr ''x'')) None None None None)
          (JStr ''room1'') (JStr ''unknownformat'') =
     ([axios_get ''/_/room1/csv''], Resolved (Plain (JStr ''x'')))"
proof -
  let ?esm = "Ethercalc (answers (JStr ''x'')) None None None None"
  let ?cjs = "Ethercalc_cjs (answers (JStr ''x'')) None None"
  note a = exportRoom_target [of "''CSV.JSON''" ?esm "JStr ''room1''",
      unfolded lower_char_examples]
  note b = exportRoom_target [of "''HTML''" ?cjs "JStr ''room1''",
      unfolded lower_char_examples]
  note c = exportRoom_target [of "''unknownformat''" ?esm "JStr ''room1''",
      unfolded lower_char_examples]
  have 1: "fst (exportRoom ?esm (JStr ''room1'') (JStr ''CSV.JSON'')) =
             [axios_get ''/_/room1/csv.json'']"
    using a by simp
  have 2: "fst (exportRoom_cjs ?cjs (JStr ''room1'') (JStr ''HTML'')) =
             [axios_get ''/_/room1/html'']"
    using b by simp
  have "''unknownformat'' \<notin> {''csv.json'', ''xlsx'', ''md'', ''html''}"
    by simp
  with c have "exportRoom ?esm (JStr ''room1'') (JStr ''unknownformat'') =
        ([axios_get (''/_/'' @ to_string (JStr ''room1'') @ ''/csv'')],
         Resolved (await_data
           (send ?esm (axios_get (''/_/'' @ to_string (JStr ''room1'') @ ''/csv'')))))"
    by blast
  then have 3: "exportRoom ?esm (JStr ''room1'') (JStr ''unknownformat'') =
             ([axios_get ''/_/room1/csv''], Resolved (Plain (JStr ''x'')))"
    by (simp add: answers_def await_data_response)
  show ?thesis
    using 1 2 3 by blast
qed

text \<open>
  C10. \<^verbatim>\<open>exportRoom\<close> calls \<^verbatim>\<open>type.toLowerCase()\<close> before anything else. For every \<^verbatim>\<open>type\<close> that
  is not a string no request is made and the call fails with a TypeError: the promise
  of the ES module's \<^verbatim>\<open>async\<close> function is rejected, the CommonJS function throws. For a
  string \<^verbatim>\<open>type\<close> the call always resolves.
\<close>

theorem exportRoom_needs_string:
  "((\<forall>s. type \<noteq> JStr s) \<longrightarrow>
      exportRoom this room type = ([], Rejected TypeError) \<and>
      exportRoom_cjs this room type = ([], Thrown TypeError)) \<and>
   ((\<exists>s. type = JStr s) \<longrightarrow>
      (\<exists>v. snd (exportRoom this room type) = Resolved v) \<and>
      (\<exists>v. snd (exportRoom_cjs this room type) = Resolved v))"
  by (cases type) (auto simp: exportRoom_def exportRoom_cjs_def Let_def)

theorem exportRoom_needs_string_witness:
  "exportRoom (Ethercalc (answers (JStr ''x'')) None None None None) (JStr ''room1'') JNull =
     ([], Rejected TypeError) \<and>
   exportRoom_cjs (Ethercalc_cjs (answers (JStr ''x'')) None None) (JStr ''room1'') JUndefined =
     ([], Thrown TypeError) \<and>
   (\<exists>v. snd (exportRoom (Ethercalc connection_refused None None None None)
               (JStr ''room1'') (JStr ''pdf'')) = Resolved v)"
proof -
  have a: "\<forall>s. JNull \<noteq> JStr s" "\<forall>s. JUndefined \<noteq> JStr s" by simp_all
  have b: "\<exists>s. JStr ''pdf'' = JStr s" by simp
  show ?thesis
    using exportRoom_needs_string
        [of JNull "Ethercalc (answers (JStr ''x'')) None None None None" "JStr ''room1''"]
      exportRoom_needs_string
        [of JUndefined "Ethercalc_cjs (answers (JStr ''x'')) None None" "JStr ''room1''"]
      exportRoom_needs_string
        [of "JStr ''pdf''" "Ethercalc connection_refused None None None None" "JStr ''room1''"]
      a b
    by blast
qed

section \<open>createRoom\<close>

lemma encode_examples:
  "encode ''room'' = ''room''"
  "encode ''snapshot'' = ''snapshot''"
  "encode ''...'' = ''...''"
  "encode ''r1'' = ''r1''"
  "encode ''snap'' = ''snap''"
  "encode ''cmd1'' = ''cmd1''"
  "encode ''cmd2'' = ''cmd2''"
  by code_simp+

lemma qs_stringify_pairs:
  "qs_stringify [(k1, JStr a), (k2, JStr b)] =
     encode k1 @ ''='' @ encode a @ ''&'' @ encode k2 @ ''='' @ encode b"
  "qs_stringify [(k1, JStr a), (k2, JUndefined)] = encode k1 @ ''='' @ encode a"
  "qs_stringify [(k, JStr a)] = encode k @ ''='' @ encode a"
  "qs_stringify [(k, JUndefined)] = []"
  "qs_stringify [(k, JNull)] = encode k @ ''=''"
  by (simp_all add: qs_stringify_def encode_def)

lemma qs_stringify_room_snapshot:
  "qs_stringify [(''room'', JStr r), (''snapshot'', JStr s)] =
     ''room='' @ encode r @ ''&snapshot='' @ encode s"
  "qs_stringify [(''room'', JStr r), (''snapshot'', JUndefined)] = ''room='' @ encode r"
  unfolding qs_stringify_pairs encode_examples by simp_all

lemma qs_stringify_snapshot:
  "qs_stringify [(''snapshot'', JStr s)] = ''snapshot='' @ encode s"
  "qs_stringify [(''snapshot'', JUndefined)] = []"
  "qs_stringify [(''snapshot'', JNull)] = ''snapshot=''"
  unfolding qs_stringify_pairs encode_examples by simp_all

text \<open>
  C6, as the code has it. With a truthy room id, \<^verbatim>\<open>createRoom\<close> issues one POST to
  \<^verbatim>\<open>/_/{room}\<close> with the form encoding of \<^verbatim>\<open>{room, snapshot}\<close>, in both files: for a room id and
  a snapshot that are strings the body has exactly the keys \<^verbatim>\<open>room\<close> and \<^verbatim>\<open>snapshot\<close>, and
  for an absent snapshot it has the key \<^verbatim>\<open>room\<close> only, since the encoder leaves an
  undefined value out. With a room id that is not truthy (absent or null among them) it
  issues one POST to \<^verbatim>\<open>/_\<close> with the form encoding of \<^verbatim>\<open>{snapshot}\<close>. There the ES module puts
  \<^verbatim>\<open>DEFAULT_SNAPSHOT\<close> in the place of a snapshot that is not truthy, so the body is
  \<^verbatim>\<open>snapshot=...\<close>; the CommonJS file encodes the snapshot as it was given, and an absent
  one gives the empty body.
\<close>

theorem createRoom_requests:
  "(truthy room \<longrightarrow>
      fst (createRoom this room snapshot) =
        [\<lparr>verb = POST, url = ''/_/'' @ to_string room,
          payload = Form (qs_stringify [(''room'', room), (''snapshot'', snapshot)]),
          config = \<lparr>headers = [], timeout = Some 10000\<rparr>\<rparr>] \<and>
      fst (createRoom_cjs this room snapshot) =
        [\<lparr>verb = POST, url = ''/_/'' @ to_string room,
          payload = Form (qs_stringify [(''room'', room), (''snapshot'', snapshot)]),
          config = \<lparr>headers = [], timeout = Some 10000\<rparr>\<rparr>]) \<and>
   (r \<noteq> [] \<longrightarrow>
      map payload (fst (createRoom this (JStr r) (JStr s))) =
        [Form (''room='' @ encode r @ ''&snapshot='' @ encode s)] \<and>
      map payload (fst (createRoom_cjs this (JStr r) (JStr s))) =
        [Form (''room='' @ encode r @ ''&snapshot='' @ encode s)] \<and>
      map payload (fst (createRoom this (JStr r) JUndefined)) = [Form (''room='' @ encode r)] \<and>
      map payload (fst (createRoom_cjs this (JStr r) JUndefined)) =
        [Form (''room='' @ encode r)]) \<and>
   (\<not> truthy room \<longrightarrow>
      fst (createRoom this room snapshot) =
        [\<lparr>verb = POST, url = ''/_'',
          payload = Form (qs_stringify
            [(''snapshot'', if truthy snapshot then snapshot else JStr DEFAULT_SNAPSHOT)]),
          config = \<lparr>headers = [], timeout = Some 10000\<rparr>\<rparr>] \<and>
      fst (createRoom_cjs this room snapshot) =
        [\<lparr>verb = POST, url = ''/_'',
          payload = Form (qs_stringify [(''snapshot'', snapshot)]),
          config = \<lparr>headers = [], timeout = Some 10000\<rparr>\<rparr>]) \<and>
   (\<not> truthy room \<and> s \<noteq> [] \<longrightarrow>
      map payload (fst (createRoom this room (JStr s))) = [Form (''snapshot='' @ encode s)] \<and>
      map payload (fst (createRoom_cjs this room (JStr s))) =
        [Form (''snapshot='' @ encode s)]) \<and>
   (\<not> truthy room \<and> \<not> truthy snapshot \<longrightarrow>
      map payload (fst (createRoom this room snapshot)) = [Form ''snapshot=...'']) \<and>
   (\<not> truthy room \<longrightarrow>
      map payload (fst (createRoom_cjs this room JUndefined)) = [Form []] \<and>
      map payload (fst (createRoom_cjs this room JNull)) = [Form ''snapshot=''])"
  by (simp add: createRoom_def createRoom_cjs_def Let_def axios_post_def DEFAULT_SNAPSHOT_def
      qs_stringify_room_snapshot qs_stringify_snapshot encode_examples)

theorem createRoom_requests_witness:
  "fst (createRoom (Ethercalc (answers (JStr ''x'')) None None None None)
          (JStr ''r1'') (JStr ''snap'')) =
     [\<lparr>verb = POST, url = ''/_/r1'', payload = Form ''room=r1&snapshot=snap'',
       config = \<lparr>headers = [], timeout = Some 10000\<rparr>\<rparr>] \<and>
   fst (createRoom_cjs (Ethercalc_cjs (answers (JStr ''x'')) None None)
          (JStr ''r1'') (JStr ''snap'')) =
     [\<lparr>verb = POST, url = ''/_/r1'', payload = Form ''room=r1&snapshot=snap'',
       config = \<lparr>headers = [], timeout = Some 10000\<rparr>\<rparr>] \<and>
   fst (createRoom (Ethercalc (answers (JStr ''x'')) None None None None) JNull (JStr ''snap'')) =
     [\<lparr>verb = POST, url = ''/_'', payload = Form ''snapshot=snap'',
       config = \<lparr>headers = [], timeout = Some 10000\<rparr>\<rparr>] \<and>
   fst (createRoom (Ethercalc (answers (JStr ''x'')) None None None None) JNull JUndefined) =
     [\<lparr>verb = POST, url = ''/_'', payload = Form ''snapshot=...'',
       config = \<lparr>headers = [], timeout = Some 10000\<rparr>\<rparr>] \<and>
   fst (createRoom_cjs (Ethercalc_cjs (answers (JStr ''x'')) None None) JUndefined
          (JStr ''snap'')) =
     [\<lparr>verb = POST, url = ''/_'', payload = Form ''snapshot=snap'',
       config = \<lparr>headers = [], timeout = Some 10000\<rparr>\<rparr>]"
proof -
  let ?esm = "Ethercalc (answers (JStr ''x'')) None None None None"
  let ?cjs = "Ethercalc_cjs (answers (JStr ''x'')) None None"
  have t: "truthy (JStr ''r1'')" "\<not> truthy JNull" "truthy (JStr ''snap'')"
    "\<not> truthy JUndefined"
    by simp_all
  note a = createRoom_requests [of "JStr ''r1''" ?esm "JStr ''snap''" r s]
  note b = createRoom_requests [of "JStr ''r1''" ?cjs "JStr ''snap''" r s]
  note c = createRoom_requests [of JNull ?esm "JStr ''snap''" r s]
  note d = createRoom_requests [of JNull ?esm JUndefined r s]
  note e = createRoom_requests [of JUndefined ?cjs "JStr ''snap''" r s]
  have 1: "fst (createRoom ?esm (JStr ''r1'') (JStr ''snap'')) =
     [\<lparr>verb = POST, url = ''/_/r1'', payload = Form ''room=r1&snapshot=snap'',
       config = \<lparr>headers = [], timeout = Some 10000\<rparr>\<rparr>]"
    using a t by (simp add: qs_stringify_room_snapshot encode_examples)
  have 2: "fst (createRoom_cjs ?cjs (JStr ''r1'') (JStr ''snap'')) =
     [\<lparr>verb = POST, url = ''/_/r1'', payload = Form ''room=r1&snapshot=snap'',
       config = \<lparr>headers = [], timeout = Some 10000\<rparr>\<rparr>]"
    using b t by (simp add: qs_stringify_room_snapshot encode_examples)
  have 3: "fst (createRoom ?esm JNull (JStr ''snap'')) =
     [\<lparr>verb = POST, url = ''/_'', payload = Form ''snapshot=snap'',
       config = \<lparr>headers = [], timeout = Some 10000\<rparr>\<rparr>]"
    using c t by (simp add: qs_stringify_snapshot encode_examples)
  have 4: "fst (createRoom ?esm JNull JUndefined) =
     [\<lparr>verb = POST, url = ''/_'', payload = Form ''snapshot=...'',
       config = \<lparr>headers = [], timeout = Some 10000\<rparr>\<rparr>]"
    using d t by (simp add: qs_stringify_snapshot encode_examples DEFAULT_SNAPSHOT_def)
  have 5: "fst (createRoom_cjs ?cjs JUndefined (JStr ''snap'')) =
     [\<lparr>verb = POST, url = ''/_'', payload = Form ''snapshot=snap'',
       config = \<lparr>headers = [], timeout = Some 10000\<rparr>\<rparr>]"
    using e t by (simp add: qs_stringify_snapshot encode_examples)
  show ?thesis
    using 1 2 3 4 5 by blast
qed

text \<open>
  C6, as it is written, fails twice. With the room id \<^verbatim>\<open>r1\<close> and no snapshot the body is
  \<^verbatim>\<open>room=r1\<close>, which has no key \<^verbatim>\<open>snapshot\<close>, in both files. With neither a room id nor a
  snapshot the CommonJS file sends the empty body: it has no placeholder snapshot.
\<close>

theorem createRoom_form_counterexample:
  "map payload (fst (createRoom (Ethercalc (answers (JStr ''x'')) None None None None)
       (JStr ''r1'') JUndefined)) = [Form ''room=r1''] \<and>
   map payload (fst (createRoom_cjs (Ethercalc_cjs (answers (JStr ''x'')) None None)
       (JStr ''r1'') JUndefined)) = [Form ''room=r1''] \<and>
   map payload (fst (createRoom_cjs (Ethercalc_cjs (answers (JStr ''x'')) None None)
       JNull JUndefined)) = [Form []] \<and>
   map payload (fst (createRoom (Ethercalc (answers (JStr ''x'')) None None None None)
       JNull JUndefined)) = [Form ''snapshot=...'']"
  by (simp add: createRoom_def createRoom_cjs_def Let_def axios_post_def DEFAULT_SNAPSHOT_def
      qs_stringify_room_snapshot qs_stringify_snapshot encode_examples)

section \<open>Timeouts\<close>

text \<open>
  Only \<^verbatim>\<open>createRoom\<close> passes a timeout of its own, 10000 ms in both branches; a request
  of any other operation has none, so the timeout given at construction applies to it.
\<close>

lemma timeout_of_requests:
  assumes "req \<in> set (fst (call m this op))"
  shows "timeout (config req) = (if is_createRoom op then Some 10000 else None)"
  using assms
  by (cases m; cases op)
     (auto simp: esm_defs cjs_defs request_defs Let_def split: if_splits sum.splits)

text \<open>
  C7 does not hold of \<^verbatim>\<open>createRoomFromCSVFile\<close>. Its request carries the Content-Type header
  and no timeout, so the timeout of the instance applies: 2500 ms for a client built with
  the defaults, in both files, where the claim has 10000 ms.
\<close>

theorem createRoomFromCSVFile_timeout:
  "fst (createRoomFromCSVFile (Ethercalc connection_refused None None None None) ''rooms.csv'') =
     [\<lparr>verb = POST, url = ''/_/'', payload = ReadStream ''rooms.csv'',
       config = \<lparr>headers = [(''Content-Type'', ''text/csv'')], timeout = None\<rparr>\<rparr>] \<and>
   map (request_timeout (Ethercalc connection_refused None None None None))
     (fst (createRoomFromCSVFile (Ethercalc connection_refused None None None None)
        ''rooms.csv'')) = [2500] \<and>
   map (request_timeout (Ethercalc_cjs connection_refused None None))
     (fst (createRoomFromCSVFile_cjs (Ethercalc_cjs connection_refused None None)
        ''rooms.csv'')) = [2500] \<and>
   map (request_timeout (Ethercalc connection_refused None None None None))
     (fst (createRoom (Ethercalc connection_refused None None None None) JNull JNull)) = [10000]"
  by (simp add: createRoomFromCSVFile_def createRoomFromCSVFile_cjs_def createRoom_def
      request_timeout_def Ethercalc_def Ethercalc_cjs_def axios_post_def Let_def
      DEFAULT_TIMEOUT_def)

section \<open>deleteRoom\<close>

text \<open>
  C8. \<^verbatim>\<open>deleteRoom\<close> issues the DELETE of \<^verbatim>\<open>/_/{room}\<close>. When the request is fulfilled with a
  response, whatever its status and body, the call resolves to \<^verbatim>\<open>true\<close>. When it is
  rejected, an error that carries a response becomes \<^verbatim>\<open>{status, message}\<close> and an error
  without one is passed through as it is. Both files agree.
\<close>

theorem deleteRoom_outcome:
  "fst (deleteRoom this room) = [axios_delete (''/_/'' @ to_string room)] \<and>
   fst (deleteRoom_cjs this room) = [axios_delete (''/_/'' @ to_string room)] \<and>
   (send this (axios_delete (''/_/'' @ to_string room)) = Fulfilled (Some r) \<longrightarrow>
      snd (deleteRoom this room) = Resolved (Plain (JBool True)) \<and>
      snd (deleteRoom_cjs this room) = Resolved (Plain (JBool True))) \<and>
   (send this (axios_delete (''/_/'' @ to_string room)) = Failed error \<and>
    response error = Some r \<longrightarrow>
      snd (deleteRoom this room) = Resolved (StatusMessage (status r) (statusText r)) \<and>
      snd (deleteRoom_cjs this room) = Resolved (StatusMessage (status r) (statusText r))) \<and>
   (send this (axios_delete (''/_/'' @ to_string room)) = Failed error \<and>
    response error = None \<longrightarrow>
      snd (deleteRoom this room) = Resolved (ErrorObject error) \<and>
      snd (deleteRoom_cjs this room) = Resolved (ErrorObject error))"
  by (simp add: deleteRoom_def deleteRoom_cjs_def Let_def catch_handler_def)

theorem deleteRoom_outcome_witness:
  "deleteRoom (Ethercalc (answers (JStr ''anything'')) None None None None) (JStr ''room1'') =
     ([axios_delete ''/_/room1''], Resolved (Plain (JBool True))) \<and>
   deleteRoom_cjs (Ethercalc_cjs not_found None None) (JStr ''room1'') =
     ([axios_delete ''/_/room1''], Resolved (StatusMessage 404 ''Not Found'')) \<and>
   deleteRoom (Ethercalc connection_refused None None None None) (JStr ''room1'') =
     ([axios_delete ''/_/room1''], Resolved (ErrorObject (AxiosError ''ECONNREFUSED'' None)))"
proof -
  let ?ok = "Ethercalc (answers (JStr ''anything'')) None None None None"
  let ?nf = "Ethercalc_cjs not_found None None"
  let ?cr = "Ethercalc connection_refused None None None None"
  let ?r = "\<lparr>status = 200, statusText = ''OK'', data = JStr ''anything''\<rparr>"
  let ?r404 = "\<lparr>status = 404, statusText = ''Not Found'', data = JStr []\<rparr>"
  have a: "send ?ok (axios_delete (''/_/'' @ to_string (JStr ''room1''))) = Fulfilled (Some ?r)"
    by (simp add: answers_def)
  have b: "send ?nf (axios_delete (''/_/'' @ to_string (JStr ''room1''))) =
             Failed (AxiosError ''ERR_BAD_REQUEST'' (Some ?r404)) \<and>
           response (AxiosError ''ERR_BAD_REQUEST'' (Some ?r404)) = Some ?r404"
    by (simp add: not_found_def)
  have c: "send ?cr (axios_delete (''/_/'' @ to_string (JStr ''room1''))) =
             Failed (AxiosError ''ECONNREFUSED'' None) \<and>
           response (AxiosError ''ECONNREFUSED'' None) = None"
    by (simp add: connection_refused_def)
  show ?thesis
    using deleteRoom_outcome [of ?ok "JStr ''room1''" ?r error] a
      deleteRoom_outcome [of ?nf "JStr ''room1''" ?r404 "AxiosError ''ERR_BAD_REQUEST'' (Some ?r404)"] b
      deleteRoom_outcome [of ?cr "JStr ''room1''" r "AxiosError ''ECONNREFUSED'' None"] c
    by (simp add: prod_eq_iff)
qed

section \<open>postCommand\<close>

lemma qs_items_strings:
  "qs_items prefix i (map JStr cs) =
     map (\<lambda>(j, c). (prefix @ ''['' @ decimal j @ '']'', c)) (enumerate i cs)"
  by (induction cs arbitrary: i) simp_all

lemma encode_append: "encode (a @ b) = encode a @ encode b"
  by (simp add: encode_def)

lemma encode_digit: "d < 10 \<Longrightarrow> encode [digit_char d] = [digit_char d]"
  by (simp add: encode_def encode_char_def digit_char_def Let_def)

lemma encode_decimal: "encode (decimal n) = decimal n"
proof (induction n rule: decimal.induct)
  case (1 n)
  have d: "encode [digit_char (n mod 10)] = [digit_char (n mod 10)]"
    by (rule encode_digit) simp
  show ?case
  proof (cases "n div 10 = 0")
    case True
    then have "decimal n = [digit_char (n mod 10)]"
      by (subst decimal.simps) simp
    with d show ?thesis by (simp only:)
  next
    case False
    then have "decimal n = decimal (n div 10) @ [digit_char (n mod 10)]"
      by (subst decimal.simps) simp
    with d "1" [OF False] show ?thesis by (simp only: encode_append)
  qed
qed

lemma encode_indexed_key:
  "encode (k @ ''['' @ decimal j @ '']'') = encode k @ ''%5B'' @ decimal j @ ''%5D''"
proof -
  have "encode (k @ ''['' @ decimal j @ '']'') =
          encode k @ encode ''['' @ encode (decimal j) @ encode '']''"
    by (simp only: encode_append)
  also have "encode ''['' = ''%5B''" by code_simp
  also have "encode '']'' = ''%5D''" by code_simp
  finally show ?thesis by (simp only: encode_decimal)
qed

lemma qs_stringify_strings:
  "qs_stringify [(k, JArr (map JStr cs))] =
     join ''&''
       (map (\<lambda>(i, c). encode k @ ''%5B'' @ decimal i @ ''%5D='' @ encode c)
          (enumerate 0 cs))"
proof -
  have "qs_stringify [(k, JArr (map JStr cs))] =
          join ''&''
            (map (\<lambda>(k, v). encode k @ ''='' @ encode v)
               (map (\<lambda>(j, c). (k @ ''['' @ decimal j @ '']'', c)) (enumerate 0 cs)))"
    by (simp only: qs_stringify_def list.map prod.case qs_value.simps qs_items_strings
        concat.simps append_Nil2)
  also have "map (\<lambda>(k, v). encode k @ ''='' @ encode v)
               (map (\<lambda>(j, c). (k @ ''['' @ decimal j @ '']'', c)) (enumerate 0 cs)) =
             map (\<lambda>(i, c). encode k @ ''%5B'' @ decimal i @ ''%5D='' @ encode c)
               (enumerate 0 cs)"
    unfolding map_map o_def split_beta fst_conv snd_conv encode_indexed_key by simp
  finally show ?thesis .
qed

lemma qs_stringify_commands:
  "qs_stringify [(''command'', JArr (map JStr commands))] =
     join ''&''
       (map (\<lambda>(i, c). ''command%5B'' @ decimal i @ ''%5D='' @ encode c)
          (enumerate 0 commands))"
proof -
  have "encode ''command'' = ''command''" by code_simp
  then show ?thesis
    unfolding qs_stringify_strings by simp
qed

text \<open>
  C9. For every sequence of command strings, \<^verbatim>\<open>postCommand\<close> issues one POST to \<^verbatim>\<open>/_/{room}\<close>
  whose form-encoded body lists the commands in the order in which they were given: the
  body is \<^verbatim>\<open>command%5B0%5D=...&command%5B1%5D=...\<close>, the percent-encoded command at position
  \<open>i\<close> of the sequence under the key \<^verbatim>\<open>command[i]\<close>, and the positions ascending. Both files
  agree.
\<close>

theorem postCommand_order:
  "fst (postCommand this room (JArr (map JStr commands))) =
     [\<lparr>verb = POST, url = ''/_/'' @ to_string room,
       payload = Form (join ''&''
         (map (\<lambda>(i, c). ''command%5B'' @ decimal i @ ''%5D='' @ encode c)
            (enumerate 0 commands))),
       config = \<lparr>headers = [], timeout = None\<rparr>\<rparr>] \<and>
   fst (postCommand_cjs this room (JArr (map JStr commands))) =
     [\<lparr>verb = POST, url = ''/_/'' @ to_string room,
       payload = Form (join ''&''
         (map (\<lambda>(i, c). ''command%5B'' @ decimal i @ ''%5D='' @ encode c)
            (enumerate 0 commands))),
       config = \<lparr>headers = [], timeout = None\<rparr>\<rparr>]"
  by (simp add: postCommand_def postCommand_cjs_def Let_def axios_post_def no_config_def
      qs_stringify_commands)

lemma decimal_examples: "decimal 0 = ''0''" "decimal (Suc 0) = ''1''"
  by code_simp+

theorem postCommand_order_witness:
  "fst (postCommand (Ethercalc (answers (JStr ''x'')) None None None None)
          (JStr ''room1'') (JArr [JStr ''cmd1'', JStr ''cmd2''])) =
     [\<lparr>verb = POST, url = ''/_/room1'',
       payload = Form ''command%5B0%5D=cmd1&command%5B1%5D=cmd2'',
       config = \<lparr>headers = [], timeout = None\<rparr>\<rparr>] \<and>
   fst (postCommand_cjs (Ethercalc_cjs (answers (JStr ''x'')) None None)
          (JStr ''room1'') (JArr [JStr ''cmd2'', JStr ''cmd1''])) =
     [\<lparr>verb = POST, url = ''/_/room1'',
       payload = Form ''command%5B0%5D=cmd2&command%5B1%5D=cmd1'',
       config = \<lparr>headers = [], timeout = None\<rparr>\<rparr>]"
proof -
  have 1: "fst (postCommand (Ethercalc (answers (JStr ''x'')) None None None None)
          (JStr ''room1'') (JArr [JStr ''cmd1'', JStr ''cmd2''])) =
     [\<lparr>verb = POST, url = ''/_/room1'',
       payload = Form ''command%5B0%5D=cmd1&command%5B1%5D=cmd2'',
       config = \<lparr>headers = [], timeout = None\<rparr>\<rparr>]"
    using postCommand_order [of "Ethercalc (answers (JStr ''x'')) None None None None"
      "JStr ''room1''" "[''cmd1'', ''cmd2'']"]
    by (simp add: enumerate_simps decimal_examples encode_examples)
  have 2: "fst (postCommand_cjs (Ethercalc_cjs (answers (JStr ''x'')) None None)
          (JStr ''room1'') (JArr [JStr ''cmd2'', JStr ''cmd1''])) =
     [\<lparr>verb = POST, url = ''/_/room1'',
       payload = Form ''command%5B0%5D=cmd2&command%5B1%5D=cmd1'',
       config = \<lparr>headers = [], timeout = None\<rparr>\<rparr>]"
    using postCommand_order [of "Ethercalc_cjs (answers (JStr ''x'')) None None"
      "JStr ''room1''" "[''cmd2'', ''cmd1'']"]
    by (simp add: enumerate_simps decimal_examples encode_examples)
  show ?thesis using 1 2 by blast
qed

end
